theory Spec2Isabelle
  imports Main
begin

section \<open>The stopwatch of \<^verbatim>\<open>src/stopwatch.py\<close>\<close>

text \<open>
  A shallow embedding of the class \<^verbatim>\<open>Stopwatch\<close>. A \<^verbatim>\<open>datetime\<close> is modelled
  as an \<open>int\<close>, its number of microseconds since a fixed origin, so that the
  difference of two of them (a \<^verbatim>\<open>timedelta\<close>) is the difference of the
  integers. An attribute holding \<^verbatim>\<open>None\<close> or a \<^verbatim>\<open>datetime\<close> is an
  \<open>int option\<close>; a \<^verbatim>\<open>datetime\<close> is always truthy, so \<^verbatim>\<open>not self.start_time\<close>
  holds exactly when the attribute is \<^verbatim>\<open>None\<close>.

  Every method that reads the clock does so once. The reading that
  \<^verbatim>\<open>datetime.now()\<close> returns during a call is the parameter \<open>now\<close> of the call.
  A method mutates \<^verbatim>\<open>self\<close>; the model takes the state and returns the state
  after the call, also when the call raises.
\<close>

subsection \<open>Data\<close>

datatype error =
  Exception string  \<comment> \<open>\<^verbatim>\<open>raise Exception(msg)\<close>\<close>
| TypeError         \<comment> \<open>\<^verbatim>\<open>datetime - None\<close>\<close>

record stopwatch =
  start_time :: "int option"
  times' :: "(string \<times> int) list"  \<comment> \<open>the attribute \<^verbatim>\<open>times\<close>\<close>
  stop_time :: "int option"

subsection \<open>Rendering an integer, as an f-string does\<close>

definition digit_char :: "nat \<Rightarrow> char" where
  "digit_char d = ''0123456789'' ! d"

fun str_nat :: "nat \<Rightarrow> string" where
  "str_nat n = (if n < 10 then [digit_char n] else str_nat (n div 10) @ [digit_char (n mod 10)])"

declare str_nat.simps [simp del]

subsection \<open>Construction, start and reset\<close>

text \<open>
  \<^verbatim>\<open>__init__\<close> calls \<^verbatim>\<open>start\<close> (with its default \<^verbatim>\<open>force_reset=True\<close>),
  \<^verbatim>\<open>start\<close> calls \<^verbatim>\<open>reset\<close>, and \<^verbatim>\<open>reset\<close> calls \<^verbatim>\<open>__init__\<close> with
  \<^verbatim>\<open>auto_start=False\<close>: the three are defined together. The first component of
  the result is the exception raised, if any.
\<close>

function init :: "bool \<Rightarrow> int \<Rightarrow> stopwatch \<Rightarrow> error option \<times> stopwatch"
  and start :: "bool \<Rightarrow> int \<Rightarrow> stopwatch \<Rightarrow> error option \<times> stopwatch"
  and reset :: "int \<Rightarrow> stopwatch \<Rightarrow> error option \<times> stopwatch"
where
  "init auto_start now s =
     (let s1 = s\<lparr>start_time := None\<rparr>;
          s2 = s1\<lparr>times' := []\<rparr>;
          s3 = s2\<lparr>stop_time := None\<rparr>
      in if auto_start then start True now s3 else (None, s3))"
| "start force_reset now s =
     (if times' s \<noteq> [] \<and> \<not> force_reset then
        (Some (Exception ''Please reset timer using .reset() or set force_reset=True.''), s)
      else
        (case (if force_reset then reset now s else (None, s)) of
           (Some e, s1) \<Rightarrow> (Some e, s1)
         | (None, s1) \<Rightarrow>
             (let s2 = s1\<lparr>start_time := Some now\<rparr>
              in (None, s2\<lparr>times' := times' s2 @ [(''Start'', now)]\<rparr>))))"
| "reset now s = init False now s"
  by pat_completeness auto
termination
  by (relation "measure (\<lambda>x. case x of
          Inl (auto_start, _, _) \<Rightarrow> if auto_start then 3 else 0
        | Inr (Inl _) \<Rightarrow> 2
        | Inr (Inr _) \<Rightarrow> 1)") auto

declare init.simps [simp del] start.simps [simp del] reset.simps [simp del]

text \<open>
  \<^verbatim>\<open>Stopwatch(auto_start)\<close>: a new object, on which \<^verbatim>\<open>__init__\<close> runs. The new
  object has no attribute yet; \<open>init\<close> assigns all three before reading any.
\<close>

definition Stopwatch :: "bool \<Rightarrow> int \<Rightarrow> error option \<times> stopwatch" where
  "Stopwatch auto_start now =
     init auto_start now \<lparr>start_time = None, times' = [], stop_time = None\<rparr>"

subsection \<open>Lap, stop and elapsed time\<close>

text \<open>\<^verbatim>\<open>not label\<close> holds for \<^verbatim>\<open>None\<close> and for the empty string.\<close>

definition lap :: "string option \<Rightarrow> int \<Rightarrow> stopwatch \<Rightarrow> stopwatch" where
  "lap label now s =
     (let label1 = (case label of
                      None \<Rightarrow> ''Lap'' @ str_nat (length (times' s))
                    | Some l \<Rightarrow> if l = [] then ''Lap'' @ str_nat (length (times' s)) else l)
      in s\<lparr>times' := times' s @ [(label1, now)]\<rparr>)"

text \<open>The first component of the result of \<open>stop\<close> is what it prints.\<close>

definition stop :: "int \<Rightarrow> stopwatch \<Rightarrow> string list \<times> stopwatch" where
  "stop now s =
     (if start_time s = None then ([''Timer not started.''], s)
      else
        (let s1 = s\<lparr>stop_time := Some now\<rparr>
         in ([], s1\<lparr>times' := times' s1 @ [(''Stop'', now)]\<rparr>)))"

text \<open>
  The method \<^verbatim>\<open>elapsed_time_\<close> (a name cannot end in an underscore here). A
  function that falls off its end returns \<^verbatim>\<open>None\<close>.
\<close>

definition elapsed_time' :: "stopwatch \<Rightarrow> int option" where
  "elapsed_time' s =
     (case stop_time s of
        None \<Rightarrow> None
      | Some t1 \<Rightarrow> (case start_time s of None \<Rightarrow> None | Some t0 \<Rightarrow> Some (t1 - t0)))"

subsection \<open>Rendering\<close>

text \<open>
  \<^verbatim>\<open>display_laps\<close> hands its data to matplotlib and pandas. The model records
  what it hands over. An x-coordinate is either \<open>Elapsed d\<close>, the float that
  \<^verbatim>\<open>total_seconds()\<close> returns for a \<^verbatim>\<open>timedelta\<close> of \<open>d\<close> microseconds,
  or \<open>Recorded t\<close>, the \<^verbatim>\<open>datetime\<close> \<open>t\<close> itself. The text of an annotation
  is placed at \<^verbatim>\<open>(x[i], y[i]+0.005)\<close>, which the point \<^verbatim>\<open>(x[i], y[i])\<close>
  determines. The plotting and display calls themselves are taken to succeed,
  and \<^verbatim>\<open>display\<close> to be the one an interactive session provides.
\<close>

datatype xval = Elapsed int | Recorded int

record options =
  figsize :: "int \<times> int"
  mark_elapsed_time :: bool
  show_stop :: bool
  annotate :: bool
  verbose :: bool
  vlines :: bool
  styles :: "string list"

definition default_options :: options where
  "default_options =
     \<lparr>figsize = (8, 4), mark_elapsed_time = True, show_stop = True, annotate = True,
      verbose = True, vlines = True, styles = [''ggplot'', ''seaborn-talk'']\<rparr>"

record figure =
  fig_styles :: "string list"          \<comment> \<open>\<^verbatim>\<open>plt.style.context(styles)\<close>\<close>
  fig_size :: "int \<times> int"              \<comment> \<open>\<^verbatim>\<open>plt.subplots(figsize=figsize)\<close>\<close>
  xlabel :: string                     \<comment> \<open>\<^verbatim>\<open>ax.set(xlabel=...)\<close>\<close>
  scatter_x :: "xval list"             \<comment> \<open>\<^verbatim>\<open>ax.scatter(x=x, y=y)\<close>\<close>
  scatter_y :: "int list"
  annotations :: "(string \<times> xval \<times> int) list"  \<comment> \<open>\<^verbatim>\<open>plt.annotate(label, (x[i], y[i]), ...)\<close>\<close>
  axvlines :: "xval list"              \<comment> \<open>\<^verbatim>\<open>ax.axvline(..., ls=':')\<close>\<close>

record table =
  rows :: "(string \<times> int) list"       \<comment> \<open>columns \<^verbatim>\<open>Label\<close>, \<^verbatim>\<open>Timestamp\<close>\<close>
  elapsed_column :: "xval list option" \<comment> \<open>column \<^verbatim>\<open>Elapsed Time (sec)\<close>\<close>

datatype rendering =
  Notice string                  \<comment> \<open>printed, nothing drawn\<close>
| Rendered figure "table option" \<comment> \<open>the figure shown, the table displayed\<close>

text \<open>\<^verbatim>\<open>x[1] - self.start_time\<close>: subtracting \<^verbatim>\<open>None\<close> from a \<^verbatim>\<open>datetime\<close> raises.\<close>

fun sub_datetime :: "int \<Rightarrow> int option \<Rightarrow> error + int" where
  "sub_datetime t None = Inl TypeError"
| "sub_datetime t (Some t0) = Inr (t - t0)"

text \<open>
  The comprehension \<^verbatim>\<open>[(x[1] - self.start_time).total_seconds() for x in times]\<close>;
  it stops at the first element that raises.
\<close>

fun elapsed_xs :: "int option \<Rightarrow> (string \<times> int) list \<Rightarrow> error + xval list" where
  "elapsed_xs st [] = Inr []"
| "elapsed_xs st (e # es) =
     (case sub_datetime (snd e) st of
        Inl err \<Rightarrow> Inl err
      | Inr d \<Rightarrow> (case elapsed_xs st es of
                    Inl err \<Rightarrow> Inl err
                  | Inr ds \<Rightarrow> Inr (Elapsed d # ds)))"

definition display_laps :: "options \<Rightarrow> stopwatch \<Rightarrow> (error + rendering) \<times> stopwatch" where
  "display_laps opts s =
     (if times' s = [] then (Inr (Notice ''No times to display.''), s)
      else
        (let shown = (if show_stop opts then times' s else butlast (times' s)) in
         case (if mark_elapsed_time opts then
                 (case elapsed_xs (start_time s) shown of
                    Inl err \<Rightarrow> Inl err
                  | Inr x \<Rightarrow> Inr (x, ''Elapsed Time (sec)''))
               else Inr (map (\<lambda>a. Recorded (snd a)) shown, ''Time Recorded'')) of
           Inl err \<Rightarrow> (Inl err, s)
         | Inr (x, xl) \<Rightarrow>
             (let y = map (\<lambda>_. 0) x;
                  fig = \<lparr>fig_styles = styles opts, fig_size = figsize opts, xlabel = xl,
                         scatter_x = x, scatter_y = y,
                         annotations =
                           (if annotate opts then
                              map (\<lambda>(i, (label, x_val)). (label, x ! i, y ! i)) (enumerate 0 shown)
                            else []),
                         axvlines =
                           (if vlines opts then
                              (if mark_elapsed_time opts then x
                               else map (\<lambda>i. Recorded (snd i)) shown)
                            else [])\<rparr>;
                  df = (if verbose opts then
                          Some \<lparr>rows = shown,
                                elapsed_column = (if mark_elapsed_time opts then Some x else None)\<rparr>
                        else None)
              in (Inr (Rendered fig df), s))))"

subsection \<open>Sequences of calls\<close>

text \<open>
  A caller holds one stopwatch and calls its methods one after the other, each
  call with the clock reading of its moment. An exception of \<open>start\<close> leaves the
  object as it was when the exception was raised, and the caller goes on.
\<close>

datatype call = Start bool | Lap "string option" | Stop | Reset

fun call_step :: "call \<times> int \<Rightarrow> stopwatch \<Rightarrow> stopwatch" where
  "call_step (Start force_reset, now) s = snd (start force_reset now s)"
| "call_step (Lap label, now) s = lap label now s"
| "call_step (Stop, now) s = snd (stop now s)"
| "call_step (Reset, now) s = snd (reset now s)"

fun run :: "(call \<times> int) list \<Rightarrow> stopwatch \<Rightarrow> stopwatch" where
  "run [] s = s"
| "run (c # cs) s = run cs (call_step c s)"

text \<open>The states a caller can reach: construct, then call.\<close>

definition reached :: "bool \<Rightarrow> int \<Rightarrow> (call \<times> int) list \<Rightarrow> stopwatch" where
  "reached auto_start now0 cs = run cs (snd (Stopwatch auto_start now0))"

subsection \<open>Auxiliary notions for the properties\<close>

text \<open>
  The value of a decimal digit, to read back what \<open>str_nat\<close> writes: folding
  \<open>\<lambda>a c. 10 * a + digit_val c\<close> over a numeral gives the number it denotes.
\<close>

definition digit_val :: "char \<Rightarrow> nat" where
  "digit_val c = of_char c - 48"

text \<open>
  The invariant of the calls: once \<open>start_time\<close> is set, \<open>times\<close> begins with the
  entry that \<open>start\<close> appended with it.
\<close>

definition started_inv :: "stopwatch \<Rightarrow> bool" where
  "started_inv s =
     (case start_time s of
        None \<Rightarrow> True
      | Some t \<Rightarrow> times' s \<noteq> [] \<and> hd (times' s) = (''Start'', t))"

section \<open>Properties\<close>

subsection \<open>What the three mutually recursive methods compute\<close>

lemma init_False_eq:
  "init False now s = (None, \<lparr>start_time = None, times' = [], stop_time = None\<rparr>)"
  by (cases s) (simp add: init.simps)

lemma reset_eq:
  "reset now s = (None, \<lparr>start_time = None, times' = [], stop_time = None\<rparr>)"
  by (simp add: reset.simps init_False_eq)

lemma start_True_eq:
  "start True now s =
     (None, \<lparr>start_time = Some now, times' = [(''Start'', now)], stop_time = None\<rparr>)"
  by (simp add: start.simps reset_eq)

lemma start_False_eq:
  "start False now s =
     (if times' s \<noteq> [] then
        (Some (Exception ''Please reset timer using .reset() or set force_reset=True.''), s)
      else (None, s\<lparr>start_time := Some now, times' := [(''Start'', now)]\<rparr>))"
  by (simp add: start.simps)

lemma init_True_eq:
  "init True now s =
     (None, \<lparr>start_time = Some now, times' = [(''Start'', now)], stop_time = None\<rparr>)"
  by (simp add: init.simps start_True_eq)

subsection \<open>Starting\<close>

text \<open>
  C1. On a stopwatch whose \<^verbatim>\<open>times\<close> is not empty, \<^verbatim>\<open>start(force_reset=False)\<close>
  raises the exception (the one the specification calls AlreadyRunningOrUsed), and
  the state when it is raised is the state before the call: \<open>start_time\<close>,
  \<open>stop_time\<close> and \<open>times\<close> are as they were.
\<close>

theorem start_no_force_reset_raises:
  assumes "times' s \<noteq> []"
  shows "start False now s =
           (Some (Exception ''Please reset timer using .reset() or set force_reset=True.''), s)"
  using assms by (simp add: start.simps)

theorem start_no_force_reset_raises_witness:
  "times' \<lparr>start_time = Some 3, times' = [(''Start'', 3), (''Lap1'', 5)], stop_time = None\<rparr> \<noteq> []
   \<and> start False 9 \<lparr>start_time = Some 3, times' = [(''Start'', 3), (''Lap1'', 5)], stop_time = None\<rparr> =
       (Some (Exception ''Please reset timer using .reset() or set force_reset=True.''),
        \<lparr>start_time = Some 3, times' = [(''Start'', 3), (''Lap1'', 5)], stop_time = None\<rparr>)"
  using start_no_force_reset_raises
    [of "\<lparr>start_time = Some 3, times' = [(''Start'', 3), (''Lap1'', 5)], stop_time = None\<rparr>" 9]
  by simp

text \<open>
  C5. Whatever the state before, \<^verbatim>\<open>start(force_reset=True)\<close> raises nothing and
  leaves \<open>start_time\<close> at the clock reading, \<open>times\<close> the one-element list
  \<open>[(''Start'', start_time)]\<close> and \<open>stop_time\<close> absent; it is a reset followed by
  a start without reset.
\<close>

theorem start_force_reset:
  "start True now s =
     (None, \<lparr>start_time = Some now, times' = [(''Start'', now)], stop_time = None\<rparr>)
   \<and> start True now s = start False now (snd (reset now s))"
  by (simp add: start.simps reset_eq)

subsection \<open>Resetting\<close>

text \<open>
  C6. From every state \<^verbatim>\<open>reset()\<close> leads to the state of a stopwatch just
  constructed with \<^verbatim>\<open>auto_start=False\<close>: \<open>start_time\<close> absent, \<open>stop_time\<close>
  absent, \<open>times\<close> empty.
\<close>

theorem reset_is_fresh:
  "reset now s = Stopwatch False now0
   \<and> reset now s = (None, \<lparr>start_time = None, times' = [], stop_time = None\<rparr>)"
  by (simp add: Stopwatch_def reset_eq init_False_eq)

subsection \<open>Stopping and elapsed time\<close>

text \<open>
  C4. When \<open>start_time\<close> is unset, \<^verbatim>\<open>stop()\<close> prints \<^verbatim>\<open>Timer not started.\<close>
  and changes nothing. When \<open>start_time\<close> is set, it prints nothing, sets
  \<open>stop_time\<close> to the clock reading and appends \<open>(''Stop'', stop_time)\<close> to
  \<open>times\<close>.
\<close>

theorem stop_cases:
  "(start_time s = None \<longrightarrow> stop now s = ([''Timer not started.''], s))
   \<and> (start_time s \<noteq> None \<longrightarrow>
        stop now s = ([], s\<lparr>stop_time := Some now, times' := times' s @ [(''Stop'', now)]\<rparr>))"
  by (simp add: stop_def)

theorem stop_cases_witness:
  "start_time \<lparr>start_time = None, times' = [], stop_time = None\<rparr> = None
   \<and> stop 4 \<lparr>start_time = None, times' = [], stop_time = None\<rparr> =
       ([''Timer not started.''], \<lparr>start_time = None, times' = [], stop_time = None\<rparr>)
   \<and> start_time \<lparr>start_time = Some 1, times' = [(''Start'', 1)], stop_time = None\<rparr> \<noteq> None
   \<and> stop 4 \<lparr>start_time = Some 1, times' = [(''Start'', 1)], stop_time = None\<rparr> =
       ([], \<lparr>start_time = Some 1, times' = [(''Start'', 1), (''Stop'', 4)], stop_time = Some 4\<rparr>)"
  using stop_cases [of "\<lparr>start_time = None, times' = [], stop_time = None\<rparr>" 4]
    stop_cases [of "\<lparr>start_time = Some 1, times' = [(''Start'', 1)], stop_time = None\<rparr>" 4]
  by simp

text \<open>
  C3. \<^verbatim>\<open>elapsed_time_()\<close> returns \<open>stop_time - start_time\<close> when both are
  set, and \<^verbatim>\<open>None\<close> when either is unset; it has no raising branch.
\<close>

theorem elapsed_time_value:
  "(start_time s = Some t0 \<and> stop_time s = Some t1 \<longrightarrow> elapsed_time' s = Some (t1 - t0))
   \<and> (start_time s = None \<or> stop_time s = None \<longrightarrow> elapsed_time' s = None)"
  by (auto simp: elapsed_time'_def split: option.splits)

theorem elapsed_time_value_witness:
  "elapsed_time' \<lparr>start_time = Some 10, times' = [(''Start'', 10), (''Stop'', 52)],
                   stop_time = Some 52\<rparr> = Some 42
   \<and> elapsed_time' \<lparr>start_time = Some 10, times' = [(''Start'', 10)], stop_time = None\<rparr> = None
   \<and> elapsed_time' \<lparr>start_time = None, times' = [], stop_time = None\<rparr> = None"
  using elapsed_time_value
      [of "\<lparr>start_time = Some 10, times' = [(''Start'', 10), (''Stop'', 52)], stop_time = Some 52\<rparr>"
          10 52]
    elapsed_time_value [of "\<lparr>start_time = Some 10, times' = [(''Start'', 10)], stop_time = None\<rparr>"]
    elapsed_time_value [of "\<lparr>start_time = None, times' = [], stop_time = None\<rparr>"]
  by simp

subsection \<open>Rendering reads only\<close>

text \<open>
  C9. For every state and every choice of the options, the state after
  \<^verbatim>\<open>display_laps\<close> is the state before it, whether it prints its notice, draws,
  or raises.
\<close>

theorem display_laps_state_unchanged: "snd (display_laps opts s) = s"
  by (simp add: display_laps_def Let_def split: sum.splits prod.splits)

subsection \<open>Laps\<close>

lemma digit_val_char: "d < 10 \<Longrightarrow> digit_val (digit_char d) = d"
proof -
  assume "d < 10"
  then have "d \<in> {0, 1, 2, 3, 4, 5, 6, 7, 8, 9}" by auto
  then show ?thesis by (auto simp: digit_val_def digit_char_def)
qed

lemma str_nat_decimal: "foldl (\<lambda>a c. 10 * a + digit_val c) 0 (str_nat n) = n"
proof (induction n rule: str_nat.induct)
  case (1 n)
  show ?case
  proof (cases "n < 10")
    case True
    then show ?thesis by (subst str_nat.simps) (simp add: digit_val_char)
  next
    case False
    with 1 show ?thesis by (subst str_nat.simps) (simp add: digit_val_char)
  qed
qed

lemma str_nat_small:
  "str_nat 0 = ''0''" "str_nat (Suc 0) = ''1''" "str_nat (Suc (Suc 0)) = ''2''"
  by (simp_all add: str_nat.simps [of 0] str_nat.simps [of "Suc 0"]
        str_nat.simps [of "Suc (Suc 0)"] digit_char_def)

text \<open>
  C2. When the label is absent or empty, \<^verbatim>\<open>lap\<close> appends the entry whose label
  is \<open>''Lap''\<close> followed by the decimal numeral of the length that \<open>times\<close> had
  before the append, with the clock reading; a non-empty label is appended as it
  is, with the clock reading. So the first lap after a plain start is \<open>''Lap1''\<close>,
  and a lap on a new stopwatch that was not started is \<open>''Lap0''\<close>.
\<close>

theorem lap_label:
  "(label = None \<or> label = Some [] \<longrightarrow>
      lap label now s = s\<lparr>times' := times' s @ [(''Lap'' @ str_nat (length (times' s)), now)]\<rparr>)
   \<and> foldl (\<lambda>a c. 10 * a + digit_val c) 0 (str_nat (length (times' s))) = length (times' s)
   \<and> (\<forall>l. label = Some l \<and> l \<noteq> [] \<longrightarrow> lap label now s = s\<lparr>times' := times' s @ [(l, now)]\<rparr>)
   \<and> times' (lap None t1 (snd (Stopwatch True t0))) = [(''Start'', t0), (''Lap1'', t1)]
   \<and> times' (lap None t1 (snd (start True t0 s))) = [(''Start'', t0), (''Lap1'', t1)]
   \<and> times' (lap None t1 (snd (Stopwatch False t0))) = [(''Lap0'', t1)]"
proof -
  have "lap None now s = s\<lparr>times' := times' s @ [(''Lap'' @ str_nat (length (times' s)), now)]\<rparr>"
    and "lap (Some []) now s =
           s\<lparr>times' := times' s @ [(''Lap'' @ str_nat (length (times' s)), now)]\<rparr>"
    and "lap (Some l) now s = s\<lparr>times' := times' s @ [(l, now)]\<rparr>" if "l \<noteq> []" for l
    using that by (simp_all add: lap_def)
  moreover have "times' (lap None t1 (snd (Stopwatch True t0))) = [(''Start'', t0), (''Lap1'', t1)]"
    by (simp add: lap_def Stopwatch_def init_True_eq str_nat_small)
  moreover have "times' (lap None t1 (snd (start True t0 s))) = [(''Start'', t0), (''Lap1'', t1)]"
    by (simp add: lap_def start_True_eq str_nat_small)
  moreover have "times' (lap None t1 (snd (Stopwatch False t0))) = [(''Lap0'', t1)]"
    by (simp add: lap_def Stopwatch_def init_False_eq str_nat_small)
  ultimately show ?thesis
    by (auto simp: str_nat_decimal)
qed

theorem lap_label_witness:
  "lap None 8 \<lparr>start_time = Some 1, times' = [(''Start'', 1), (''Lap1'', 4)], stop_time = None\<rparr> =
     \<lparr>start_time = Some 1, times' = [(''Start'', 1), (''Lap1'', 4), (''Lap2'', 8)], stop_time = None\<rparr>
   \<and> lap (Some []) 8
         \<lparr>start_time = Some 1, times' = [(''Start'', 1), (''Lap1'', 4)], stop_time = None\<rparr> =
     \<lparr>start_time = Some 1, times' = [(''Start'', 1), (''Lap1'', 4), (''Lap2'', 8)], stop_time = None\<rparr>
   \<and> lap (Some ''Checkpoint'') 8
         \<lparr>start_time = Some 1, times' = [(''Start'', 1), (''Lap1'', 4)], stop_time = None\<rparr> =
     \<lparr>start_time = Some 1, times' = [(''Start'', 1), (''Lap1'', 4), (''Checkpoint'', 8)],
      stop_time = None\<rparr>"
  using
    lap_label [of None 8
      "\<lparr>start_time = Some 1, times' = [(''Start'', 1), (''Lap1'', 4)], stop_time = None\<rparr>"]
    lap_label [of "Some []" 8
      "\<lparr>start_time = Some 1, times' = [(''Start'', 1), (''Lap1'', 4)], stop_time = None\<rparr>"]
    lap_label [of "Some ''Checkpoint''" 8
      "\<lparr>start_time = Some 1, times' = [(''Start'', 1), (''Lap1'', 4)], stop_time = None\<rparr>"]
  by (simp add: str_nat_small)

subsection \<open>The invariant of the calls\<close>

lemma started_inv_call_step: "started_inv s \<Longrightarrow> started_inv (call_step c s)"
proof (cases c)
  case (Pair k now)
  assume inv: "started_inv s"
  show ?thesis
  proof (cases k)
    case (Start force_reset)
    with Pair inv show ?thesis
      by (cases force_reset)
        (auto simp: start_True_eq start_False_eq started_inv_def split: option.splits)
  next
    case (Lap label)
    with Pair inv show ?thesis
      by (simp add: lap_def started_inv_def split: option.splits)
  next
    case Stop
    with Pair inv show ?thesis
      by (simp add: stop_def started_inv_def split: option.splits)
  next
    case Reset
    with Pair show ?thesis
      by (simp add: reset_eq started_inv_def)
  qed
qed

lemma started_inv_run: "started_inv s \<Longrightarrow> started_inv (run cs s)"
  by (induction cs arbitrary: s) (simp_all add: started_inv_call_step)

lemma started_inv_Stopwatch: "started_inv (snd (Stopwatch auto_start now))"
  by (cases auto_start) (simp_all add: Stopwatch_def init_True_eq init_False_eq started_inv_def)

lemma reached_started:
  "start_time (reached auto_start now0 cs) = Some t \<Longrightarrow>
   times' (reached auto_start now0 cs) \<noteq> [] \<and>
   hd (times' (reached auto_start now0 cs)) = (''Start'', t)"
  using started_inv_run [OF started_inv_Stopwatch, of cs auto_start now0]
  by (simp add: reached_def started_inv_def)

lemma run_append: "run (cs @ ds) s = run ds (run cs s)"
  by (induction cs arbitrary: s) simp_all

lemma reached_lap_unstarted:
  "reached False t1 [(Lap None, t2)] =
     \<lparr>start_time = None, times' = [(''Lap0'', t2)], stop_time = None\<rparr>"
  by (simp add: reached_def Stopwatch_def init_False_eq lap_def str_nat_small)

lemma reached_reset_lap:
  "reached auto_start t1 (cs @ [(Reset, t2), (Lap None, t3)]) =
     \<lparr>start_time = None, times' = [(''Lap0'', t3)], stop_time = None\<rparr>"
  by (simp add: reached_def run_append reset_eq lap_def str_nat_small)

text \<open>
  C7, as stated, fails: a stopwatch constructed with \<^verbatim>\<open>auto_start=False\<close> on
  which \<^verbatim>\<open>lap()\<close> is called has a non-empty \<open>times\<close> and no \<open>start_time\<close>.
\<close>

theorem lap_before_start_counterexample:
  "times' (reached False 0 [(Lap None, 1)]) \<noteq> []
   \<and> start_time (reached False 0 [(Lap None, 1)]) \<noteq>
       Some (snd (hd (times' (reached False 0 [(Lap None, 1)]))))"
  by (simp add: reached_def Stopwatch_def init_False_eq lap_def)

text \<open>
  C7, amended. In every state reached from a construction by any sequence of
  \<^verbatim>\<open>start\<close>, \<^verbatim>\<open>lap\<close>, \<^verbatim>\<open>stop\<close> and \<^verbatim>\<open>reset\<close> calls, at any clock readings,
  whenever \<open>times\<close> is non-empty and \<open>start_time\<close> is set, \<open>start_time\<close> is the
  timestamp of the first entry of \<open>times\<close>.
\<close>

theorem start_time_is_first_timestamp:
  "times' (reached auto_start now0 cs) \<noteq> [] \<and> start_time (reached auto_start now0 cs) \<noteq> None \<longrightarrow>
   start_time (reached auto_start now0 cs) =
     Some (snd (hd (times' (reached auto_start now0 cs))))"
  using reached_started [of auto_start now0 cs] by auto

theorem start_time_is_first_timestamp_witness:
  "times' (reached True 10 [(Lap None, 12), (Stop, 15), (Lap (Some ''late''), 17)]) \<noteq> []
   \<and> start_time (reached True 10 [(Lap None, 12), (Stop, 15), (Lap (Some ''late''), 17)]) \<noteq> None
   \<and> start_time (reached True 10 [(Lap None, 12), (Stop, 15), (Lap (Some ''late''), 17)]) =
       Some (snd (hd (times'
         (reached True 10 [(Lap None, 12), (Stop, 15), (Lap (Some ''late''), 17)]))))"
  using start_time_is_first_timestamp
    [of True 10 "[(Lap None, 12), (Stop, 15), (Lap (Some ''late''), 17)]"]
  by (simp add: reached_def Stopwatch_def init_True_eq lap_def stop_def)

subsection \<open>What is rendered\<close>

lemma elapsed_xs_Some: "elapsed_xs (Some t0) es = Inr (map (\<lambda>e. Elapsed (snd e - t0)) es)"
  by (induction es) simp_all

lemma elapsed_xs_None: "elapsed_xs None es = (if es = [] then Inr [] else Inl TypeError)"
  by (cases es) simp_all

lemma annotations_labels:
  "map (\<lambda>(i, (label, x_val)). (label, x ! i, y ! i)) (enumerate 0 shown) =
   map (\<lambda>i. (fst (shown ! i), x ! i, y ! i)) [0..<length shown]"
proof (rule nth_equalityI)
  show "length (map (\<lambda>(i, (label, x_val)). (label, x ! i, y ! i)) (enumerate 0 shown)) =
        length (map (\<lambda>i. (fst (shown ! i), x ! i, y ! i)) [0..<length shown])"
    by simp
next
  fix i
  assume "i < length (map (\<lambda>(i, (label, x_val)). (label, x ! i, y ! i)) (enumerate 0 shown))"
  then have i: "i < length shown" by simp
  then have "enumerate 0 shown ! i = (i, shown ! i)"
    by (simp add: nth_enumerate_eq)
  with i show "map (\<lambda>(i, (label, x_val)). (label, x ! i, y ! i)) (enumerate 0 shown) ! i =
        map (\<lambda>i. (fst (shown ! i), x ! i, y ! i)) [0..<length shown] ! i"
    by (simp add: split_beta)
qed

lemma map_const_zero: "map (\<lambda>_. 0::int) x = replicate (length x) 0"
  by (simp add: map_replicate_const)

lemma display_laps_raises:
  assumes "times' s \<noteq> []"
    and "shown = (if show_stop opts then times' s else butlast (times' s))"
    and "mark_elapsed_time opts" "start_time s = None" "shown \<noteq> []"
  shows "display_laps opts s = (Inl TypeError, s)"
  using assms by (simp add: display_laps_def elapsed_xs_None)

lemma display_laps_elapsed:
  assumes "times' s \<noteq> []"
    and "shown = (if show_stop opts then times' s else butlast (times' s))"
    and "mark_elapsed_time opts" "start_time s = Some t0"
    and "x = map (\<lambda>e. Elapsed (snd e - t0)) shown"
  shows "display_laps opts s =
    (Inr (Rendered
       \<lparr>fig_styles = styles opts, fig_size = figsize opts, xlabel = ''Elapsed Time (sec)'',
        scatter_x = x, scatter_y = replicate (length shown) 0,
        annotations = (if annotate opts then map (\<lambda>i. (fst (shown ! i), x ! i, 0)) [0..<length shown] else []),
        axvlines = (if vlines opts then x else [])\<rparr>
       (if verbose opts then Some \<lparr>rows = shown, elapsed_column = Some x\<rparr> else None)), s)"
  using assms
  by (simp add: display_laps_def elapsed_xs_Some Let_def annotations_labels map_const_zero)

lemma display_laps_elapsed_empty:
  assumes "times' s \<noteq> []"
    and "shown = (if show_stop opts then times' s else butlast (times' s))"
    and "mark_elapsed_time opts" "shown = []"
  shows "display_laps opts s =
    (Inr (Rendered
       \<lparr>fig_styles = styles opts, fig_size = figsize opts, xlabel = ''Elapsed Time (sec)'',
        scatter_x = [], scatter_y = [],
        annotations = [],
        axvlines = []\<rparr>
       (if verbose opts then Some \<lparr>rows = [], elapsed_column = Some []\<rparr> else None)), s)"
  using assms
  by (cases "show_stop opts") (simp_all add: display_laps_def Let_def)

lemma display_laps_recorded:
  assumes "times' s \<noteq> []"
    and "shown = (if show_stop opts then times' s else butlast (times' s))"
    and "\<not> mark_elapsed_time opts"
    and "x = map (\<lambda>e. Recorded (snd e)) shown"
  shows "display_laps opts s =
    (Inr (Rendered
       \<lparr>fig_styles = styles opts, fig_size = figsize opts, xlabel = ''Time Recorded'',
        scatter_x = x, scatter_y = replicate (length shown) 0,
        annotations = (if annotate opts then map (\<lambda>i. (fst (shown ! i), x ! i, 0)) [0..<length shown] else []),
        axvlines = (if vlines opts then x else [])\<rparr>
       (if verbose opts then Some \<lparr>rows = shown, elapsed_column = None\<rparr> else None)), s)"
  using assms
  by (simp add: display_laps_def Let_def annotations_labels map_const_zero)

lemma display_laps_empty:
  "times' s = [] \<Longrightarrow> display_laps opts s = (Inr (Notice ''No times to display.''), s)"
  by (simp add: display_laps_def)


text \<open>
  C8, as stated, fails: it promises a rendering for every non-empty \<open>times\<close>,
  but after \<^verbatim>\<open>Stopwatch(auto_start=False)\<close>, \<^verbatim>\<open>lap()\<close>, \<^verbatim>\<open>lap()\<close> the call
  \<^verbatim>\<open>display_laps(show_stop=False)\<close> raises \<^verbatim>\<open>TypeError\<close> at the subtraction,
  before anything is drawn or tabulated.
\<close>

theorem display_laps_show_stop_counterexample:
  "times' (reached False 0 [(Lap None, 1), (Lap None, 2)]) = [(''Lap0'', 1), (''Lap1'', 2)]
   \<and> start_time (reached False 0 [(Lap None, 1), (Lap None, 2)]) = None
   \<and> fst (display_laps (default_options\<lparr>show_stop := False\<rparr>)
             (reached False 0 [(Lap None, 1), (Lap None, 2)])) = Inl TypeError"
  by (simp add: reached_def Stopwatch_def init_False_eq lap_def str_nat_small
        display_laps_def default_options_def)

text \<open>
  C8, amended. Let \<open>times\<close> be non-empty and \<open>shown\<close> be \<open>times\<close> when
  \<^verbatim>\<open>show_stop\<close> holds and \<open>times\<close> without its last element otherwise,
  whatever the label of that element. Unless \<^verbatim>\<open>mark_elapsed_time\<close> holds,
  \<open>start_time\<close> is unset and \<open>shown\<close> is non-empty (the case in which the
  subtraction raises), \<^verbatim>\<open>display_laps\<close> returns and draws and tabulates exactly
  the entries of \<open>shown\<close>: one point, one annotation (when \<^verbatim>\<open>annotate\<close>), one
  vertical line (when \<^verbatim>\<open>vlines\<close>) and one table row (when \<^verbatim>\<open>verbose\<close>) for
  each, in order.
\<close>

theorem display_laps_show_stop:
  assumes "times' s \<noteq> []"
    and "shown = (if show_stop opts then times' s else butlast (times' s))"
    and "\<not> (mark_elapsed_time opts \<and> start_time s = None \<and> shown \<noteq> [])"
  shows
    "\<exists>fig df. fst (display_laps opts s) = Inr (Rendered fig df)
       \<and> length (scatter_x fig) = length shown
       \<and> (\<forall>t0. mark_elapsed_time opts \<and> start_time s = Some t0 \<longrightarrow>
              scatter_x fig = map (\<lambda>e. Elapsed (snd e - t0)) shown)
       \<and> (\<not> mark_elapsed_time opts \<longrightarrow> scatter_x fig = map (\<lambda>e. Recorded (snd e)) shown)
       \<and> scatter_y fig = replicate (length shown) 0
       \<and> annotations fig =
           (if annotate opts
            then map (\<lambda>i. (fst (shown ! i), scatter_x fig ! i, 0)) [0..<length shown] else [])
       \<and> axvlines fig = (if vlines opts then scatter_x fig else [])
       \<and> df = (if verbose opts
                then Some \<lparr>rows = shown,
                           elapsed_column =
                             (if mark_elapsed_time opts then Some (scatter_x fig) else None)\<rparr>
                else None)"
proof (cases "mark_elapsed_time opts")
  case False
  with display_laps_recorded [OF assms(1,2) False refl] show ?thesis by simp
next
  case mark: True
  show ?thesis
  proof (cases "start_time s")
    case (Some t0)
    with display_laps_elapsed [OF assms(1,2) mark Some refl] mark show ?thesis by simp
  next
    case None
    with assms(3) mark have "shown = []" by simp
    with display_laps_elapsed_empty [OF assms(1,2) mark this] mark None show ?thesis by simp
  qed
qed

theorem display_laps_show_stop_witness:
  "times' \<lparr>start_time = Some 0,
           times' = [(''Start'', 0), (''Lap1'', 15), (''Checkpoint'', 20), (''Lap3'', 25)],
           stop_time = None\<rparr> \<noteq> []
   \<and> [(''Start'', 0), (''Lap1'', 15), (''Checkpoint'', 20)] =
       (if show_stop (default_options\<lparr>show_stop := False\<rparr>)
        then times' \<lparr>start_time = Some 0,
           times' = [(''Start'', 0), (''Lap1'', 15), (''Checkpoint'', 20), (''Lap3'', 25)],
           stop_time = None\<rparr>
        else butlast (times' \<lparr>start_time = Some 0,
           times' = [(''Start'', 0), (''Lap1'', 15), (''Checkpoint'', 20), (''Lap3'', 25)],
           stop_time = None\<rparr>))
   \<and> \<not> (mark_elapsed_time (default_options\<lparr>show_stop := False\<rparr>)
        \<and> start_time \<lparr>start_time = Some 0,
             times' = [(''Start'', 0), (''Lap1'', 15), (''Checkpoint'', 20), (''Lap3'', 25)],
             stop_time = None\<rparr> = None
        \<and> [(''Start'', 0::int), (''Lap1'', 15), (''Checkpoint'', 20)] \<noteq> [])
   \<and> (\<exists>fig df. fst (display_laps (default_options\<lparr>show_stop := False\<rparr>)
          \<lparr>start_time = Some 0,
           times' = [(''Start'', 0), (''Lap1'', 15), (''Checkpoint'', 20), (''Lap3'', 25)],
           stop_time = None\<rparr>) = Inr (Rendered fig df)
        \<and> scatter_x fig = [Elapsed 0, Elapsed 15, Elapsed 20]
        \<and> map fst (annotations fig) = [''Start'', ''Lap1'', ''Checkpoint'']
        \<and> df = Some \<lparr>rows = [(''Start'', 0), (''Lap1'', 15), (''Checkpoint'', 20)],
                      elapsed_column = Some [Elapsed 0, Elapsed 15, Elapsed 20]\<rparr>)
   \<and> (\<exists>fig df. fst (display_laps default_options
          \<lparr>start_time = Some 0,
           times' = [(''Start'', 0), (''Lap1'', 15), (''Checkpoint'', 20), (''Lap3'', 25)],
           stop_time = None\<rparr>) = Inr (Rendered fig df)
        \<and> scatter_x fig = [Elapsed 0, Elapsed 15, Elapsed 20, Elapsed 25]
        \<and> df = Some \<lparr>rows = [(''Start'', 0), (''Lap1'', 15), (''Checkpoint'', 20), (''Lap3'', 25)],
                      elapsed_column = Some [Elapsed 0, Elapsed 15, Elapsed 20, Elapsed 25]\<rparr>)"
  using
    display_laps_show_stop [of "\<lparr>start_time = Some 0,
           times' = [(''Start'', 0), (''Lap1'', 15), (''Checkpoint'', 20), (''Lap3'', 25)],
           stop_time = None\<rparr>" "[(''Start'', 0), (''Lap1'', 15), (''Checkpoint'', 20)]"
           "default_options\<lparr>show_stop := False\<rparr>"]
    display_laps_show_stop [of "\<lparr>start_time = Some 0,
           times' = [(''Start'', 0), (''Lap1'', 15), (''Checkpoint'', 20), (''Lap3'', 25)],
           stop_time = None\<rparr>"
           "[(''Start'', 0), (''Lap1'', 15), (''Checkpoint'', 20), (''Lap3'', 25)]"
           default_options]
  by (auto simp: default_options_def upt_rec [of 0] upt_rec [of 1] upt_rec [of 2])

text \<open>
  C10. With \<^verbatim>\<open>mark_elapsed_time\<close>, each x-coordinate is the timestamp of the
  entry minus \<open>start_time\<close>, and nothing checks that \<open>start_time\<close> is set. In
  every state where it is set \<^verbatim>\<open>display_laps\<close> returns without raising. The
  state with an entry in \<open>times\<close> and no \<open>start_time\<close> is reached by \<^verbatim>\<open>lap()\<close>
  on a stopwatch constructed with \<^verbatim>\<open>auto_start=False\<close>, and by \<^verbatim>\<open>lap()\<close>
  after \<^verbatim>\<open>reset()\<close> at the end of any sequence of calls; there
  \<^verbatim>\<open>display_laps\<close> with its default options raises \<^verbatim>\<open>TypeError\<close>.
\<close>

theorem display_laps_unguarded_subtraction:
  "(\<forall>t0. start_time s = Some t0 \<longrightarrow>
       (\<exists>r. fst (display_laps opts s) = Inr r)
       \<and> (mark_elapsed_time opts \<and> times' s \<noteq> [] \<longrightarrow>
            (\<exists>fig df. fst (display_laps opts s) = Inr (Rendered fig df)
               \<and> scatter_x fig =
                   map (\<lambda>e. Elapsed (snd e - t0))
                     (if show_stop opts then times' s else butlast (times' s)))))
   \<and> reached False t1 [(Lap None, t2)] =
       \<lparr>start_time = None, times' = [(''Lap0'', t2)], stop_time = None\<rparr>
   \<and> fst (display_laps default_options (reached False t1 [(Lap None, t2)])) = Inl TypeError
   \<and> reached auto_start t1 (cs @ [(Reset, t2), (Lap None, t3)]) =
       \<lparr>start_time = None, times' = [(''Lap0'', t3)], stop_time = None\<rparr>
   \<and> fst (display_laps default_options (reached auto_start t1 (cs @ [(Reset, t2), (Lap None, t3)]))) =
       Inl TypeError"
proof -
  have a: "\<exists>r. fst (display_laps opts s) = Inr r" if st: "start_time s = Some t0" for t0
  proof (cases "times' s = []")
    case True
    then show ?thesis by (simp add: display_laps_empty)
  next
    case ne: False
    show ?thesis
    proof (cases "mark_elapsed_time opts")
      case True
      from display_laps_elapsed [OF ne refl True st refl] show ?thesis by simp
    next
      case False
      from display_laps_recorded [OF ne refl False refl] show ?thesis by simp
    qed
  qed
  have b: "\<exists>fig df. fst (display_laps opts s) = Inr (Rendered fig df)
               \<and> scatter_x fig =
                   map (\<lambda>e. Elapsed (snd e - t0))
                     (if show_stop opts then times' s else butlast (times' s))"
    if st: "start_time s = Some t0" and m: "mark_elapsed_time opts" and ne: "times' s \<noteq> []" for t0
    using display_laps_elapsed [OF ne refl m st refl] by simp
  have c: "fst (display_laps default_options
                 \<lparr>start_time = None, times' = [(''Lap0'', t)], stop_time = None\<rparr>) = Inl TypeError" for t
    by (simp add: display_laps_def default_options_def)
  from a b c show ?thesis
    by (simp add: reached_lap_unstarted reached_reset_lap)
qed

theorem display_laps_unguarded_subtraction_witness:
  "start_time (reached True 0 [(Lap None, 15), (Stop, 30)]) = Some 0
   \<and> (\<exists>fig df. fst (display_laps default_options (reached True 0 [(Lap None, 15), (Stop, 30)])) =
                 Inr (Rendered fig df)
        \<and> scatter_x fig = [Elapsed 0, Elapsed 15, Elapsed 30])
   \<and> fst (display_laps default_options (reached False 0 [(Lap None, 15)])) = Inl TypeError
   \<and> fst (display_laps default_options
             (reached True 0 ([(Lap None, 15), (Stop, 30)] @ [(Reset, 15), (Lap None, 50)]))) =
       Inl TypeError"
  using display_laps_unguarded_subtraction [where s = "reached True 0 [(Lap None, 15), (Stop, 30)]" and opts = default_options
                and ?t1.0 = 0 and ?t2.0 = 15 and auto_start = True
                and cs = "[(Lap None, 15), (Stop, 30)]" and ?t3.0 = 50]
  by (auto simp: reached_def Stopwatch_def init_True_eq init_False_eq reset_eq lap_def stop_def
        default_options_def str_nat_small)

end
